theory Spec2Isabelle
  imports Complex_Main "HOL-Library.Multiset"
begin

section \<open>The tables read by \<^verbatim>\<open>libcommon/state.py\<close>\<close>

text \<open>
  \<^verbatim>\<open>state.py\<close> receives two pandas tables: \<^verbatim>\<open>pending_jobs_df\<close>, the pending rows of
  the queue, and \<^verbatim>\<open>cache_entries_df\<close>, the metadata of the cached responses. A table is
  modelled as the list of its rows in table order, a row as a record of its columns.
  A column that may hold \<^verbatim>\<open>pd.NA\<close> (or \<^verbatim>\<open>None\<close>) is an \<open>option\<close>. Timestamps
  (\<^verbatim>\<open>created_at\<close>, \<^verbatim>\<open>updated_at\<close>) are integers: only their order is read.

  \<^verbatim>\<open>libcommon/dtos.py\<close> is not part of the sources. The two enumerations are the ones
  of the specification (section 3) and of the tests (\<^verbatim>\<open>Status.WAITING\<close>,
  \<^verbatim>\<open>Priority.NORMAL\<close>). How pandas orders their values inside a column depends on the
  absent declaration, so every function that sorts takes the two rankings
  \<open>status_rank\<close> and \<open>priority_rank\<close> as parameters: a value with a larger rank sorts
  after a value with a smaller rank in ascending order.
\<close>

datatype Status = WAITING | STARTED

datatype Priority = LOW | NORMAL | HIGH

record JobRow =
  job_id :: string
  type :: string
  dataset :: string
  revision :: string
  config :: "string option"
  split :: "string option"
  priority :: Priority
  status :: Status
  created_at :: int
  difficulty :: int

record CacheRow =
  kind :: string
  dataset :: string
  config :: "string option"
  split :: "string option"
  http_status :: int
  error_code :: "string option"
  job_runner_version :: "int option"
  dataset_git_revision :: "string option"
  updated_at :: int
  progress :: "real option"
  failed_runs :: int

text \<open>\<^verbatim>\<open>CacheEntryMetadata\<close> (a typed dictionary of \<^verbatim>\<open>simple_cache.py\<close>), with the keys
  \<^verbatim>\<open>CacheState.__post_init__\<close> fills.\<close>

record CacheEntryMetadata =
  http_status :: int
  error_code :: "string option"
  job_runner_version :: "int option"
  dataset_git_revision :: "string option"
  updated_at :: int
  progress :: "real option"
  failed_runs :: int

section \<open>\<^verbatim>\<open>JobState\<close>\<close>

text \<open>
  \<^verbatim>\<open>pending_jobs_df.sort_values(["status", "priority", "created_at"],
  ascending=[False, False, True])\<close>: the rows in lexicographic order of the three
  columns, the first two descending, the third ascending. \<open>sorts_before a b\<close> says
  that row \<open>a\<close> comes strictly before row \<open>b\<close> in that order. Sorting on several
  columns is stable in pandas; the insertion below keeps rows with equal keys in table
  order.
\<close>

definition sorts_before ::
  "(Status \<Rightarrow> nat) \<Rightarrow> (Priority \<Rightarrow> nat) \<Rightarrow> JobRow \<Rightarrow> JobRow \<Rightarrow> bool" where
  "sorts_before status_rank priority_rank a b =
     (status_rank (status b) < status_rank (status a)
      \<or> (status_rank (status a) = status_rank (status b)
          \<and> (priority_rank (priority b) < priority_rank (priority a)
              \<or> (priority_rank (priority a) = priority_rank (priority b)
                  \<and> created_at a < created_at b))))"

fun insert_row ::
  "(Status \<Rightarrow> nat) \<Rightarrow> (Priority \<Rightarrow> nat) \<Rightarrow> JobRow \<Rightarrow> JobRow list \<Rightarrow> JobRow list" where
  "insert_row sr pr x [] = [x]"
| "insert_row sr pr x (y # ys) =
     (if sorts_before sr pr y x then y # insert_row sr pr x ys else x # y # ys)"

fun sort_values ::
  "(Status \<Rightarrow> nat) \<Rightarrow> (Priority \<Rightarrow> nat) \<Rightarrow> JobRow list \<Rightarrow> JobRow list" where
  "sort_values sr pr [] = []"
| "sort_values sr pr (x # xs) = insert_row sr pr x (sort_values sr pr xs)"

record JobState =
  dataset :: string
  revision :: string
  config :: "string option"
  split :: "string option"
  job_type :: string
  pending_jobs_df :: "JobRow list"
  valid_pending_jobs_df :: "JobRow list"
  is_in_process :: bool

text \<open>\<^verbatim>\<open>JobState.__post_init__\<close>: \<^verbatim>\<open>head(1)\<close> is \<open>take 1\<close>, \<^verbatim>\<open>df.empty\<close> is \<open>df = []\<close>.\<close>

definition JobState_post_init ::
  "(Status \<Rightarrow> nat) \<Rightarrow> (Priority \<Rightarrow> nat) \<Rightarrow> string \<Rightarrow> string \<Rightarrow> string option \<Rightarrow>
   string option \<Rightarrow> string \<Rightarrow> JobRow list \<Rightarrow> JobState" where
  "JobState_post_init sr pr ds rv cfg sp jt df =
     (let valid = take 1 (sort_values sr pr df)
      in \<lparr> JobState.dataset = ds, JobState.revision = rv, JobState.config = cfg,
           JobState.split = sp, job_type = jt, pending_jobs_df = df,
           valid_pending_jobs_df = valid, is_in_process = (valid \<noteq> []) \<rparr>)"

section \<open>\<^verbatim>\<open>CacheState\<close>\<close>

record CacheState =
  dataset :: string
  config :: "string option"
  split :: "string option"
  cache_kind :: string
  cache_entries_df :: "CacheRow list"
  job_runner_version :: int
  cache_entry_metadata :: "CacheEntryMetadata option"
  exists' :: bool
  is_success :: bool

text \<open>
  \<^verbatim>\<open>CacheState.__post_init__\<close>. With more than one row the source logs a warning and goes
  on; the log is not modelled. \<^verbatim>\<open>iloc[0]\<close> is the first row. The field \<^verbatim>\<open>exists\<close> is
  written \<open>exists'\<close>.
\<close>

definition CacheState_post_init ::
  "string \<Rightarrow> string option \<Rightarrow> string option \<Rightarrow> string \<Rightarrow> CacheRow list \<Rightarrow> int \<Rightarrow> CacheState" where
  "CacheState_post_init ds cfg sp ck df jrv =
     (let metadata =
        (case df of
           [] \<Rightarrow> None
         | entry # _ \<Rightarrow>
             Some \<lparr> CacheEntryMetadata.http_status = CacheRow.http_status entry,
                    CacheEntryMetadata.error_code = CacheRow.error_code entry,
                    CacheEntryMetadata.job_runner_version = CacheRow.job_runner_version entry,
                    CacheEntryMetadata.dataset_git_revision = CacheRow.dataset_git_revision entry,
                    CacheEntryMetadata.updated_at = CacheRow.updated_at entry,
                    CacheEntryMetadata.progress = CacheRow.progress entry,
                    CacheEntryMetadata.failed_runs = CacheRow.failed_runs entry \<rparr>)
      in \<lparr> CacheState.dataset = ds, CacheState.config = cfg, CacheState.split = sp,
           cache_kind = ck, cache_entries_df = df, CacheState.job_runner_version = jrv,
           cache_entry_metadata = metadata,
           exists' = (metadata \<noteq> None),
           is_success =
             (case metadata of
                None \<Rightarrow> False
              | Some m \<Rightarrow> CacheEntryMetadata.http_status m < 400) \<rparr>)"

definition is_empty :: "CacheState \<Rightarrow> bool" where
  "is_empty self = (cache_entry_metadata self = None)"

text \<open>
  \<^verbatim>\<open>libcommon/constants.py\<close> is not part of the sources: \<^verbatim>\<open>ERROR_CODES_TO_RETRY\<close> (a set of
  strings, specification section 6) and \<^verbatim>\<open>MAX_FAILED_RUNS\<close> are parameters. An
  \<^verbatim>\<open>error_code\<close> that is \<^verbatim>\<open>None\<close> is not a member of a set of strings.
\<close>

definition is_error_to_retry :: "string set \<Rightarrow> int \<Rightarrow> CacheState \<Rightarrow> bool" where
  "is_error_to_retry ERROR_CODES_TO_RETRY MAX_FAILED_RUNS self =
     (case cache_entry_metadata self of
        None \<Rightarrow> False
      | Some m \<Rightarrow>
          400 \<le> CacheEntryMetadata.http_status m
          \<and> (case CacheEntryMetadata.error_code m of
                None \<Rightarrow> False
              | Some code \<Rightarrow> code \<in> ERROR_CODES_TO_RETRY)
          \<and> CacheEntryMetadata.failed_runs m < MAX_FAILED_RUNS)"

definition is_older_than :: "CacheState \<Rightarrow> CacheState \<Rightarrow> bool" where
  "is_older_than self other =
     (case cache_entry_metadata self of
        None \<Rightarrow> False
      | Some m \<Rightarrow>
          (case cache_entry_metadata other of
             None \<Rightarrow> False
           | Some m' \<Rightarrow> CacheEntryMetadata.updated_at m < CacheEntryMetadata.updated_at m'))"

definition is_git_revision_different_from :: "CacheState \<Rightarrow> string option \<Rightarrow> bool" where
  "is_git_revision_different_from self git_revision =
     (case cache_entry_metadata self of
        None \<Rightarrow> True
      | Some m \<Rightarrow> CacheEntryMetadata.dataset_git_revision m \<noteq> git_revision)"

definition is_job_runner_obsolete :: "CacheState \<Rightarrow> bool" where
  "is_job_runner_obsolete self =
     (case cache_entry_metadata self of
        None \<Rightarrow> False
      | Some m \<Rightarrow>
          (case CacheEntryMetadata.job_runner_version m of
             None \<Rightarrow> True
           | Some v \<Rightarrow> v < CacheState.job_runner_version self))"

section \<open>Example tables\<close>

text \<open>Concrete rows and rankings, used to instantiate the theorems below.\<close>

definition example_status_rank :: "Status \<Rightarrow> nat" where
  "example_status_rank s = (case s of STARTED \<Rightarrow> 0 | WAITING \<Rightarrow> 1)"

definition example_priority_rank :: "Priority \<Rightarrow> nat" where
  "example_priority_rank p = (case p of HIGH \<Rightarrow> 0 | LOW \<Rightarrow> 1 | NORMAL \<Rightarrow> 2)"

definition example_job_row :: "string \<Rightarrow> Priority \<Rightarrow> Status \<Rightarrow> int \<Rightarrow> JobRow" where
  "example_job_row i p s t =
     \<lparr> job_id = i, type = ''dataset-config-names'', JobRow.dataset = ''dataset'',
       JobRow.revision = ''revision'', JobRow.config = None, JobRow.split = None,
       priority = p, status = s, created_at = t, difficulty = 50 \<rparr>"

definition example_cache_row :: "int \<Rightarrow> string option \<Rightarrow> int \<Rightarrow> int \<Rightarrow> CacheRow" where
  "example_cache_row st ec t n =
     \<lparr> kind = ''dataset-config-names'', CacheRow.dataset = ''dataset'', CacheRow.config = None,
       CacheRow.split = None, CacheRow.http_status = st, CacheRow.error_code = ec,
       CacheRow.job_runner_version = Some 1, CacheRow.dataset_git_revision = Some ''revision'',
       CacheRow.updated_at = t, CacheRow.progress = Some 1, CacheRow.failed_runs = n \<rparr>"

definition example_cache_state :: "CacheRow list \<Rightarrow> CacheState" where
  "example_cache_state df =
     CacheState_post_init ''dataset'' None None ''dataset-config-names'' df 1"

section \<open>The cache store and its \<^verbatim>\<open>failed_runs\<close> counter\<close>

text \<open>
  \<^verbatim>\<open>libcommon/simple_cache.py\<close> and \<^verbatim>\<open>libcommon/orchestrator.py\<close> are not part of the
  sources; of the code that writes the cache only the test
  \<^verbatim>\<open>test_upsert_response_failed_runs\<close> (\<^verbatim>\<open>tests/test_orchestrator.py\<close>) is. The store is
  therefore modelled from the specification, and the test is translated from its source
  and used to check the model.
\<close>

text \<open>Modelled from the spec: the opaque \<^verbatim>\<open>content\<close> and \<^verbatim>\<open>details\<close> payloads of a cache
  entry (section 3) are JSON values; their Python type is declared in the absent
  \<^verbatim>\<open>simple_cache.py\<close>.\<close>

datatype json =
  JNull | JBool bool | JNumber int | JString string | JArray "json list"
  | JObject "(string \<times> json) list"

text \<open>Modelled from the spec: \<^verbatim>\<open>CacheEntry\<close> (sections 2 and 3), the document class of the
  absent \<^verbatim>\<open>simple_cache.py\<close>: the payload and the metadata stored under one key.\<close>

record CacheEntry =
  content :: json
  http_status :: int
  error_code :: "string option"
  details :: "json option"
  progress :: "real option"
  job_runner_version :: "int option"
  dataset_git_revision :: "string option"
  updated_at :: int
  failed_runs :: int

text \<open>Modelled from the spec: a cache entry is identified by
  \<^verbatim>\<open>(kind, dataset, config, split)\<close> (section 3).\<close>

type_synonym CacheKey = "string \<times> string \<times> string option \<times> string option"

text \<open>Modelled from the spec: the \<^verbatim>\<open>CacheStore\<close> of the absent \<^verbatim>\<open>simple_cache.py\<close> holds at
  most one entry per key (section 3): a partial map.\<close>

type_synonym CacheStore = "CacheKey \<rightharpoonup> CacheEntry"

text \<open>The value of \<^verbatim>\<open>failed_runs\<close> an upsert stores, from the prior entry under the key (if
  any), the new revision and the new \<^verbatim>\<open>http_status\<close>.\<close>

type_synonym failed_runs_rule = "CacheEntry option \<Rightarrow> string \<Rightarrow> int \<Rightarrow> int"

text \<open>
  The rule in the words of section 4.2 of the specification (and of claim C1): the
  counter goes up when a prior entry exists, its revision is the new one, its
  \<^verbatim>\<open>http_status\<close> is at least 400 and the new \<^verbatim>\<open>http_status\<close> is at least 400; it is 0
  otherwise. It is kept only to be compared with \<open>compute_failed_runs\<close>.
\<close>

definition failed_runs_as_specified :: failed_runs_rule where
  "failed_runs_as_specified prior new_revision new_http_status =
     (case prior of
        None \<Rightarrow> 0
      | Some p \<Rightarrow>
          if CacheEntry.dataset_git_revision p = Some new_revision
             \<and> 400 \<le> CacheEntry.http_status p \<and> 400 \<le> new_http_status
          then CacheEntry.failed_runs p + 1 else 0)"

text \<open>
  Modelled from the spec: the rule of the absent \<^verbatim>\<open>finish_job\<close> (\<^verbatim>\<open>orchestrator.py\<close>) and
  \<^verbatim>\<open>upsert_response\<close> (\<^verbatim>\<open>simple_cache.py\<close>). It is the rule of section 4.2 without the
  condition on the prior \<^verbatim>\<open>http_status\<close>. With that condition the rule contradicts both
  scenario 6 of section 8 (trajectory 0, 1, 2, 0, 0, where the first failure follows a
  success) and the test \<^verbatim>\<open>test_upsert_response_failed_runs\<close> of the sources, which asserts
  \<^verbatim>\<open>failed_runs == 1\<close> for the first failure after two successes at one revision
  (lemmas \<open>test_passes_with_compute_failed_runs\<close> and
  \<open>test_fails_with_failed_runs_as_specified\<close> below).
\<close>

definition compute_failed_runs :: failed_runs_rule where
  "compute_failed_runs prior new_revision new_http_status =
     (case prior of
        None \<Rightarrow> 0
      | Some p \<Rightarrow>
          if CacheEntry.dataset_git_revision p = Some new_revision \<and> 400 \<le> new_http_status
          then CacheEntry.failed_runs p + 1 else 0)"

text \<open>
  Modelled from the spec: \<^verbatim>\<open>upsert\<close> (section 4.2) of the absent \<^verbatim>\<open>simple_cache.py\<close>, an
  atomic replace-or-insert by key that computes \<^verbatim>\<open>failed_runs\<close>; \<open>now\<close> is the time of
  the write, stored as \<^verbatim>\<open>updated_at\<close>. The rule for \<^verbatim>\<open>failed_runs\<close> is a parameter of
  \<open>upsert_with\<close>, so that the test can be run under either rule.
\<close>

definition upsert_with ::
  "failed_runs_rule \<Rightarrow> int \<Rightarrow> string \<Rightarrow> string \<Rightarrow> string option \<Rightarrow> string option \<Rightarrow> json \<Rightarrow> int \<Rightarrow>
   string option \<Rightarrow> json option \<Rightarrow> real option \<Rightarrow> int \<Rightarrow> string \<Rightarrow> CacheStore \<Rightarrow> CacheStore" where
  "upsert_with rule now knd ds cfg sp cont st ec det pg jrv rv cache =
     cache((knd, ds, cfg, sp) \<mapsto>
       \<lparr> content = cont, CacheEntry.http_status = st, CacheEntry.error_code = ec,
         details = det, CacheEntry.progress = pg, CacheEntry.job_runner_version = Some jrv,
         CacheEntry.dataset_git_revision = Some rv, CacheEntry.updated_at = now,
         CacheEntry.failed_runs = rule (cache (knd, ds, cfg, sp)) rv st \<rparr>)"

text \<open>Modelled from the spec: \<^verbatim>\<open>upsert\<close> with the rule \<open>compute_failed_runs\<close>.\<close>

definition upsert ::
  "int \<Rightarrow> string \<Rightarrow> string \<Rightarrow> string option \<Rightarrow> string option \<Rightarrow> json \<Rightarrow> int \<Rightarrow>
   string option \<Rightarrow> json option \<Rightarrow> real option \<Rightarrow> int \<Rightarrow> string \<Rightarrow> CacheStore \<Rightarrow> CacheStore" where
  "upsert = upsert_with compute_failed_runs"

subsection \<open>The test \<^verbatim>\<open>test_upsert_response_failed_runs\<close>\<close>

text \<open>
  The constants of the test come from the absent \<^verbatim>\<open>tests/utils.py\<close>. The dataset and
  config names below are the ones the artifact identifiers of
  \<^verbatim>\<open>test_backfill_on_real_graph.py\<close> show (\<^verbatim>\<open>dataset\<close>, \<^verbatim>\<open>config1\<close>, \<^verbatim>\<open>config2\<close>), the content
  is the one of scenario 3 of section 8 of the specification; the name of the step and
  the version of the job runner are not in the sources and are chosen here. The test
  only requires that every run uses the same values, and no result depends on them.
\<close>

definition STEP_DA :: string where "STEP_DA = ''dataset-a''"
definition DATASET_NAME :: string where "DATASET_NAME = ''dataset''"
definition JOB_RUNNER_VERSION :: int where "JOB_RUNNER_VERSION = 1"
definition CONFIG_NAMES_CONTENT :: json where
  "CONFIG_NAMES_CONTENT =
     JObject [(''config_names'',
       JArray [JObject [(''config'', JString ''config1'')],
               JObject [(''config'', JString ''config2'')]])]"

text \<open>
  \<^verbatim>\<open>run_job(revision, http_status)\<close> of the test: it queues and starts a job for
  \<^verbatim>\<open>STEP_DA\<close> on \<^verbatim>\<open>DATASET_NAME\<close> at \<open>revision\<close>, finishes it with the given
  \<^verbatim>\<open>http_status\<close>, no error code, no details and progress 1.0, and clears the queue.
  Only \<^verbatim>\<open>finish_job\<close> writes the cache (step 1 of section 4.6: the output is persisted by
  an upsert under the job's key); the queue is not part of this model.
\<close>

definition run_job :: "failed_runs_rule \<Rightarrow> int \<Rightarrow> string \<Rightarrow> int \<Rightarrow> CacheStore \<Rightarrow> CacheStore" where
  "run_job rule now rv st cache =
     upsert_with rule now STEP_DA DATASET_NAME None None CONFIG_NAMES_CONTENT st None None
       (Some 1) JOB_RUNNER_VERSION rv cache"

text \<open>\<^verbatim>\<open>assert_failed_runs(failed_runs)\<close> of the test: the entry of \<^verbatim>\<open>STEP_DA\<close> exists, holds
  the given counter, and is the only entry of the cache.\<close>

definition assert_failed_runs :: "int \<Rightarrow> CacheStore \<Rightarrow> bool" where
  "assert_failed_runs n cache =
     ((case cache (STEP_DA, DATASET_NAME, None, None) of
         None \<Rightarrow> False
       | Some e \<Rightarrow> CacheEntry.failed_runs e = n)
      \<and> card (dom cache) = 1)"

text \<open>The test itself: six runs, each followed by its assertion. \<^verbatim>\<open>HTTPStatus.OK\<close> is 200,
  \<^verbatim>\<open>HTTPStatus.INTERNAL_SERVER_ERROR\<close> is 500.\<close>

definition test_upsert_response_failed_runs :: "failed_runs_rule \<Rightarrow> bool" where
  "test_upsert_response_failed_runs rule =
     (let c1 = run_job rule 1 ''revision'' 200 Map.empty;
          c2 = run_job rule 2 ''revision'' 200 c1;
          c3 = run_job rule 3 ''revision'' 500 c2;
          c4 = run_job rule 4 ''revision'' 500 c3;
          c5 = run_job rule 5 ''new_revision'' 500 c4;
          c6 = run_job rule 6 ''new_revision'' 200 c5
      in assert_failed_runs 0 c1 \<and> assert_failed_runs 0 c2 \<and> assert_failed_runs 1 c3
         \<and> assert_failed_runs 2 c4 \<and> assert_failed_runs 0 c5 \<and> assert_failed_runs 0 c6)"

text \<open>The counters read after each job of a list of jobs (revision, \<^verbatim>\<open>http_status\<close>) run
  one after the other as \<^verbatim>\<open>run_job\<close> runs them, the \<open>i\<close>-th at time \<open>now + i\<close>.\<close>

fun failed_runs_trajectory :: "int \<Rightarrow> (string \<times> int) list \<Rightarrow> CacheStore \<Rightarrow> int option list" where
  "failed_runs_trajectory now [] cache = []"
| "failed_runs_trajectory now (job # jobs) cache =
     (let cache' = run_job compute_failed_runs now (fst job) (snd job) cache
      in map_option CacheEntry.failed_runs (cache' (STEP_DA, DATASET_NAME, None, None))
         # failed_runs_trajectory (now + 1) jobs cache')"

text \<open>Two caches for the examples: the entry of \<^verbatim>\<open>STEP_DA\<close> after two successes, and after
  two failures, at revision \<^verbatim>\<open>revision\<close>.\<close>

definition example_two_successes :: CacheStore where
  "example_two_successes =
     run_job compute_failed_runs 2 ''revision'' 200
       (run_job compute_failed_runs 1 ''revision'' 200 Map.empty)"

definition example_two_failures :: CacheStore where
  "example_two_failures =
     run_job compute_failed_runs 2 ''revision'' 500
       (run_job compute_failed_runs 1 ''revision'' 500 Map.empty)"

section \<open>\<^verbatim>\<open>sort_values\<close> sorts\<close>

lemma mset_insert_row: "mset (insert_row sr pr x xs) = add_mset x (mset xs)"
  by (induction xs) auto

lemma mset_sort_values: "mset (sort_values sr pr df) = mset df"
  by (induction df) (auto simp: mset_insert_row)

lemma set_sort_values: "set (sort_values sr pr df) = set df"
  by (metis mset_sort_values set_mset_mset)

lemma length_sort_values: "length (sort_values sr pr df) = length df"
  by (metis mset_sort_values size_mset)

lemma sorts_before_trans:
  "sorts_before sr pr a b \<Longrightarrow> sorts_before sr pr b c \<Longrightarrow> sorts_before sr pr a c"
  unfolding sorts_before_def by auto

lemma not_sorts_before_trans:
  "\<not> sorts_before sr pr b a \<Longrightarrow> \<not> sorts_before sr pr c b \<Longrightarrow> \<not> sorts_before sr pr c a"
  unfolding sorts_before_def by auto

lemma sorts_before_asym: "sorts_before sr pr a b \<Longrightarrow> \<not> sorts_before sr pr b a"
  unfolding sorts_before_def by auto

lemma set_insert_row: "set (insert_row sr pr x xs) = insert x (set xs)"
  by (induction xs) auto

lemma sorted_insert_row:
  "sorted_wrt (\<lambda>a b. \<not> sorts_before sr pr b a) xs \<Longrightarrow>
   sorted_wrt (\<lambda>a b. \<not> sorts_before sr pr b a) (insert_row sr pr x xs)"
proof (induction xs)
  case Nil
  then show ?case by simp
next
  case (Cons y ys)
  show ?case
  proof (cases "sorts_before sr pr y x")
    case True
    with Cons show ?thesis
      by (auto simp: set_insert_row dest: sorts_before_asym)
  next
    case False
    with Cons show ?thesis
      by (auto dest: not_sorts_before_trans)
  qed
qed

lemma sorted_sort_values:
  "sorted_wrt (\<lambda>a b. \<not> sorts_before sr pr b a) (sort_values sr pr df)"
  by (induction df) (auto simp: sorted_insert_row)

lemma hd_sort_values_first:
  assumes "sort_values sr pr df = r # rest" and "r' \<in> set df"
  shows "\<not> sorts_before sr pr r' r"
proof -
  have s: "sorted_wrt (\<lambda>a b. \<not> sorts_before sr pr b a) (r # rest)"
    using sorted_sort_values[of sr pr df] assms(1) by simp
  have "r' = r \<or> r' \<in> set rest"
    using assms set_sort_values[of sr pr df] by auto
  then show ?thesis
  proof
    assume "r' = r" then show ?thesis by (simp add: sorts_before_def)
  next
    assume "r' \<in> set rest" with s show ?thesis by simp
  qed
qed

section \<open>Properties of \<^verbatim>\<open>JobState\<close> and \<^verbatim>\<open>CacheState\<close>\<close>

text \<open>
  Claim C10. For every \<^verbatim>\<open>JobState\<close> built from a table of pending jobs, whatever the
  number of rows, their statuses and the ranking of the column values:
  \<^verbatim>\<open>valid_pending_jobs_df\<close> has at most one row; it is the first row of the table sorted
  by status descending, priority descending and \<^verbatim>\<open>created_at\<close> ascending (the sorted
  table is a permutation of the input in which no row sorts strictly before an earlier
  one), so the kept row is a row of the input that no row of the input sorts strictly
  before; and \<^verbatim>\<open>is_in_process\<close> is true exactly when the input table is not empty.
\<close>

theorem JobState_valid_pending_jobs_df:
  "(let js = JobState_post_init sr pr ds rv cfg sp jt df in
      length (valid_pending_jobs_df js) \<le> 1
      \<and> valid_pending_jobs_df js = take 1 (sort_values sr pr df)
      \<and> mset (sort_values sr pr df) = mset df
      \<and> sorted_wrt (\<lambda>a b. \<not> sorts_before sr pr b a) (sort_values sr pr df)
      \<and> (\<forall>r \<in> set (valid_pending_jobs_df js). r \<in> set df \<and> (\<forall>r' \<in> set df. \<not> sorts_before sr pr r' r))
      \<and> (is_in_process js \<longleftrightarrow> df \<noteq> []))"
proof -
  have a: "\<forall>r \<in> set (take 1 (sort_values sr pr df)). r \<in> set df \<and> (\<forall>r' \<in> set df. \<not> sorts_before sr pr r' r)"
  proof (cases "sort_values sr pr df")
    case Nil
    then show ?thesis by simp
  next
    case (Cons r rest)
    have "r \<in> set df" using Cons set_sort_values[of sr pr df] by auto
    then show ?thesis using Cons hd_sort_values_first[OF Cons] by simp
  qed
  have b: "(take 1 (sort_values sr pr df) \<noteq> []) = (df \<noteq> [])"
    using length_sort_values[of sr pr df] by (cases "sort_values sr pr df") auto
  show ?thesis
    unfolding JobState_post_init_def Let_def
    using a b by (simp add: mset_sort_values sorted_sort_values)
qed

text \<open>The theorem at a table of one started and three waiting rows, and at the empty
  table.\<close>

theorem JobState_valid_pending_jobs_df_witness:
  "valid_pending_jobs_df
     (JobState_post_init example_status_rank example_priority_rank ''dataset'' ''revision''
        None None ''dataset-config-names''
        [example_job_row ''a'' NORMAL STARTED 1, example_job_row ''b'' LOW WAITING 2,
         example_job_row ''c'' NORMAL WAITING 4, example_job_row ''d'' NORMAL WAITING 3])
   = [example_job_row ''d'' NORMAL WAITING 3]
   \<and> is_in_process
       (JobState_post_init example_status_rank example_priority_rank ''dataset'' ''revision''
          None None ''dataset-config-names''
          [example_job_row ''a'' NORMAL STARTED 1, example_job_row ''b'' LOW WAITING 2,
           example_job_row ''c'' NORMAL WAITING 4, example_job_row ''d'' NORMAL WAITING 3])
   \<and> \<not> is_in_process
       (JobState_post_init example_status_rank example_priority_rank ''dataset'' ''revision''
          None None ''dataset-config-names'' [])"
  using JobState_valid_pending_jobs_df
    [of example_status_rank example_priority_rank "''dataset''" "''revision''" None None
        "''dataset-config-names''"
        "[example_job_row ''a'' NORMAL STARTED 1, example_job_row ''b'' LOW WAITING 2,
          example_job_row ''c'' NORMAL WAITING 4, example_job_row ''d'' NORMAL WAITING 3]"]
    JobState_valid_pending_jobs_df
    [of example_status_rank example_priority_rank "''dataset''" "''revision''" None None
        "''dataset-config-names''" "[]"]
  by (simp add: Let_def sorts_before_def example_status_rank_def example_priority_rank_def
      example_job_row_def)

text \<open>
  Claim C7. For every \<^verbatim>\<open>CacheState\<close>, \<^verbatim>\<open>is_error_to_retry()\<close> is true exactly when a cache
  entry exists, its \<^verbatim>\<open>http_status\<close> is at least 400, its \<^verbatim>\<open>error_code\<close> is a member of
  \<^verbatim>\<open>ERROR_CODES_TO_RETRY\<close> and its \<^verbatim>\<open>failed_runs\<close> is strictly less than
  \<^verbatim>\<open>MAX_FAILED_RUNS\<close>. In particular it is false when the entry is missing, when
  \<^verbatim>\<open>failed_runs\<close> has reached \<^verbatim>\<open>MAX_FAILED_RUNS\<close>, and when the error code is not one of
  the codes to retry. For a state built by \<^verbatim>\<open>__post_init__\<close> the entry exists exactly when
  the table of cache entries is not empty.
\<close>

theorem is_error_to_retry_iff:
  "(is_error_to_retry E M cs \<longleftrightarrow>
      (\<exists>m code. cache_entry_metadata cs = Some m
         \<and> 400 \<le> CacheEntryMetadata.http_status m
         \<and> CacheEntryMetadata.error_code m = Some code \<and> code \<in> E
         \<and> CacheEntryMetadata.failed_runs m < M))
   \<and> (cache_entry_metadata cs = None \<longrightarrow> \<not> is_error_to_retry E M cs)
   \<and> (\<forall>m. cache_entry_metadata cs = Some m \<and> M \<le> CacheEntryMetadata.failed_runs m
          \<longrightarrow> \<not> is_error_to_retry E M cs)
   \<and> (\<forall>m. cache_entry_metadata cs = Some m
            \<and> (\<forall>code. CacheEntryMetadata.error_code m = Some code \<longrightarrow> code \<notin> E)
          \<longrightarrow> \<not> is_error_to_retry E M cs)
   \<and> (exists' (CacheState_post_init ds cfg sp ck df jrv) \<longleftrightarrow> df \<noteq> [])
   \<and> (cache_entry_metadata (CacheState_post_init ds cfg sp ck df jrv) = None \<longleftrightarrow> df = [])"
  unfolding is_error_to_retry_def CacheState_post_init_def
  by (auto split: option.splits list.splits)

text \<open>The theorem at a retryable error, a missing entry, an entry that has used its
  runs, two entries whose code is not retryable, and a success.\<close>

theorem is_error_to_retry_iff_witness:
  "is_error_to_retry {''CreateCommitError''} 3
     (example_cache_state [example_cache_row 500 (Some ''CreateCommitError'') 10 2])
   \<and> \<not> is_error_to_retry {''CreateCommitError''} 3 (example_cache_state [])
   \<and> \<not> is_error_to_retry {''CreateCommitError''} 3
       (example_cache_state [example_cache_row 500 (Some ''CreateCommitError'') 10 3])
   \<and> \<not> is_error_to_retry {''CreateCommitError''} 3
       (example_cache_state [example_cache_row 500 (Some ''OtherError'') 10 0])
   \<and> \<not> is_error_to_retry {''CreateCommitError''} 3
       (example_cache_state [example_cache_row 500 None 10 0])
   \<and> \<not> is_error_to_retry {''CreateCommitError''} 3
       (example_cache_state [example_cache_row 200 (Some ''CreateCommitError'') 10 0])"
  using is_error_to_retry_iff
    [of "{''CreateCommitError''}" 3
        "example_cache_state [example_cache_row 500 (Some ''CreateCommitError'') 10 2]"]
    is_error_to_retry_iff
    [of "{''CreateCommitError''}" 3 "example_cache_state []"]
    is_error_to_retry_iff
    [of "{''CreateCommitError''}" 3
        "example_cache_state [example_cache_row 500 (Some ''CreateCommitError'') 10 3]"]
    is_error_to_retry_iff
    [of "{''CreateCommitError''}" 3
        "example_cache_state [example_cache_row 500 (Some ''OtherError'') 10 0]"]
    is_error_to_retry_iff
    [of "{''CreateCommitError''}" 3
        "example_cache_state [example_cache_row 500 None 10 0]"]
    is_error_to_retry_iff
    [of "{''CreateCommitError''}" 3
        "example_cache_state [example_cache_row 200 (Some ''CreateCommitError'') 10 0]"]
  by (simp add: example_cache_state_def example_cache_row_def CacheState_post_init_def)

text \<open>
  Claim C9. For every pair of \<^verbatim>\<open>CacheState\<close>s \<open>a\<close> and \<open>b\<close>, \<^verbatim>\<open>a.is_older_than(b)\<close> is
  false whenever \<open>a\<close> or \<open>b\<close> has no cache entry. So \<open>a\<close> is older than \<open>b\<close> only when
  both entries exist (and then \<open>a\<close>'s \<^verbatim>\<open>updated_at\<close> is the smaller one): an artifact is
  never older than a parent that has never been computed, and an artifact without a
  cache row is never older than its parent.
\<close>

theorem is_older_than_needs_both_entries:
  "(cache_entry_metadata a = None \<or> cache_entry_metadata b = None \<longrightarrow> \<not> is_older_than a b)
   \<and> (is_older_than a b \<longrightarrow>
        (\<exists>m m'. cache_entry_metadata a = Some m \<and> cache_entry_metadata b = Some m'
           \<and> CacheEntryMetadata.updated_at m < CacheEntryMetadata.updated_at m'))
   \<and> (is_older_than (CacheState_post_init ds cfg sp ck df jrv)
          (CacheState_post_init ds' cfg' sp' ck' df' jrv')
        \<longrightarrow> df \<noteq> [] \<and> df' \<noteq> []
            \<and> exists' (CacheState_post_init ds cfg sp ck df jrv)
            \<and> exists' (CacheState_post_init ds' cfg' sp' ck' df' jrv'))"
  unfolding is_older_than_def CacheState_post_init_def
  by (auto split: option.splits list.splits)

text \<open>The theorem at the three ways an entry can be missing, and at two existing
  entries in both orders.\<close>

theorem is_older_than_needs_both_entries_witness:
  "\<not> is_older_than (example_cache_state []) (example_cache_state [example_cache_row 200 None 10 0])
   \<and> \<not> is_older_than (example_cache_state [example_cache_row 200 None 10 0]) (example_cache_state [])
   \<and> \<not> is_older_than (example_cache_state []) (example_cache_state [])
   \<and> is_older_than (example_cache_state [example_cache_row 200 None 10 0])
        (example_cache_state [example_cache_row 200 None 11 0])
   \<and> \<not> is_older_than (example_cache_state [example_cache_row 200 None 11 0])
        (example_cache_state [example_cache_row 200 None 10 0])"
  using is_older_than_needs_both_entries
    [of "example_cache_state []" "example_cache_state [example_cache_row 200 None 10 0]"]
    is_older_than_needs_both_entries
    [of "example_cache_state [example_cache_row 200 None 10 0]" "example_cache_state []"]
    is_older_than_needs_both_entries
    [of "example_cache_state []" "example_cache_state []"]
    is_older_than_needs_both_entries
    [of "example_cache_state [example_cache_row 200 None 10 0]"
        "example_cache_state [example_cache_row 200 None 11 0]"]
  by (simp add: example_cache_state_def example_cache_row_def CacheState_post_init_def
      is_older_than_def)

section \<open>The \<^verbatim>\<open>failed_runs\<close> counter\<close>

text \<open>The model against the test of the sources: the test passes under
  \<open>compute_failed_runs\<close> and fails under the rule as section 4.2 words it.\<close>

lemma test_passes_with_compute_failed_runs:
  "test_upsert_response_failed_runs compute_failed_runs"
  by (simp add: test_upsert_response_failed_runs_def run_job_def upsert_with_def
      assert_failed_runs_def compute_failed_runs_def Let_def)

lemma test_fails_with_failed_runs_as_specified:
  "\<not> test_upsert_response_failed_runs failed_runs_as_specified"
  by (simp add: test_upsert_response_failed_runs_def run_job_def upsert_with_def
      assert_failed_runs_def failed_runs_as_specified_def Let_def)

lemma upsert_with_entry:
  "upsert_with rule now knd ds cfg sp cont st ec det pg jrv rv cache (knd, ds, cfg, sp) =
     Some \<lparr> content = cont, CacheEntry.http_status = st, CacheEntry.error_code = ec,
            details = det, CacheEntry.progress = pg, CacheEntry.job_runner_version = Some jrv,
            CacheEntry.dataset_git_revision = Some rv, CacheEntry.updated_at = now,
            CacheEntry.failed_runs = rule (cache (knd, ds, cfg, sp)) rv st \<rparr>"
  by (simp add: upsert_with_def)

lemma upsert_with_other:
  "k \<noteq> (knd, ds, cfg, sp) \<Longrightarrow>
   upsert_with rule now knd ds cfg sp cont st ec det pg jrv rv cache k = cache k"
  by (simp add: upsert_with_def)

lemma run_job_entry:
  "\<exists>e. run_job rule now rv st cache (STEP_DA, DATASET_NAME, None, None) = Some e
       \<and> CacheEntry.dataset_git_revision e = Some rv
       \<and> CacheEntry.http_status e = st
       \<and> CacheEntry.failed_runs e = rule (cache (STEP_DA, DATASET_NAME, None, None)) rv st"
  by (simp add: run_job_def upsert_with_entry)

lemma length_failed_runs_trajectory:
  "length (failed_runs_trajectory now jobs cache) = length jobs"
  by (induction jobs arbitrary: now cache) (simp_all add: Let_def)

lemma failed_runs_trajectory_head:
  "failed_runs_trajectory now (job # jobs) cache ! 0 =
     Some (compute_failed_runs (cache (STEP_DA, DATASET_NAME, None, None)) (fst job) (snd job))"
  using run_job_entry[of compute_failed_runs now "fst job" "snd job" cache]
  by (auto simp: Let_def)

lemma failed_runs_trajectory_step:
  assumes "i < length jobs"
  shows "\<exists>f. failed_runs_trajectory now jobs cache ! i = Some f
     \<and> (snd (jobs ! i) < 400 \<longrightarrow> f = 0)
     \<and> (0 < i \<and> fst (jobs ! (i - 1)) \<noteq> fst (jobs ! i) \<longrightarrow> f = 0)
     \<and> (0 < i \<and> fst (jobs ! (i - 1)) = fst (jobs ! i) \<and> 400 \<le> snd (jobs ! i) \<longrightarrow>
          (\<exists>f'. failed_runs_trajectory now jobs cache ! (i - 1) = Some f' \<and> f = f' + 1))"
  using assms
proof (induction jobs arbitrary: i now cache)
  case Nil
  then show ?case by simp
next
  case (Cons job jobs)
  define cache' where "cache' = run_job compute_failed_runs now (fst job) (snd job) cache"
  obtain e where e: "cache' (STEP_DA, DATASET_NAME, None, None) = Some e"
    "CacheEntry.dataset_git_revision e = Some (fst job)"
    "CacheEntry.http_status e = snd job"
    using run_job_entry[of compute_failed_runs now "fst job" "snd job" cache]
    unfolding cache'_def by blast
  have tl: "failed_runs_trajectory now (job # jobs) cache ! Suc n
      = failed_runs_trajectory (now + 1) jobs cache' ! n" for n
    by (simp add: Let_def cache'_def)
  have hd0: "failed_runs_trajectory now (job # jobs) cache ! 0 = Some (CacheEntry.failed_runs e)"
    using e(1) by (simp add: Let_def cache'_def)
  show ?case
  proof (cases i)
    case 0
    then show ?thesis
      using failed_runs_trajectory_head[of now job jobs cache]
      by (auto simp: compute_failed_runs_def split: option.splits)
  next
    case (Suc n)
    then have n: "n < length jobs" using Cons.prems by simp
    show ?thesis
    proof (cases n)
      case 0
      then obtain job' rest where jobs: "jobs = job' # rest"
        using n by (cases jobs) auto
      have "failed_runs_trajectory (now + 1) jobs cache' ! 0 =
          Some (compute_failed_runs (Some e) (fst job') (snd job'))"
        using failed_runs_trajectory_head[of "now + 1" job' rest cache'] e(1) jobs by simp
      then show ?thesis
        using Suc 0 jobs tl[of 0] hd0 e(2)
        by (auto simp: compute_failed_runs_def)
    next
      case (Suc m)
      from Cons.IH[OF n, of "now + 1" cache'] show ?thesis
        using \<open>i = Suc n\<close> Suc tl[of n] tl[of m] by auto
    qed
  qed
qed

lemma trajectory_example:
  "failed_runs_trajectory 1
     [(''r'', 200), (''r'', 500), (''r'', 500), (''r2'', 500), (''r2'', 200)] Map.empty
   = [Some 0, Some 1, Some 2, Some 0, Some 0]"
  by (simp add: run_job_def upsert_with_def compute_failed_runs_def Let_def)

text \<open>
  Claim C1, as amended. For every upsert of a result under a key
  \<^verbatim>\<open>(kind, dataset, config, split)\<close>, the entry stored under the key holds the new
  \<^verbatim>\<open>http_status\<close> and revision, and its \<^verbatim>\<open>failed_runs\<close> is the prior entry's
  \<^verbatim>\<open>failed_runs\<close> plus 1 if a prior entry exists under the key, its
  \<^verbatim>\<open>dataset_git_revision\<close> is the new one and the new \<^verbatim>\<open>http_status\<close> is at least 400
  (whatever the prior \<^verbatim>\<open>http_status\<close>); in every other case (no prior entry, a different
  revision, or a new success) it is 0. This is the value claim C1 states, except where
  the prior entry is a success at the same revision and the new result is a failure.
  Entries under other keys are left as they are.
\<close>

theorem upsert_failed_runs:
  "\<exists>e. upsert now knd ds cfg sp cont st ec det pg jrv rv cache (knd, ds, cfg, sp) = Some e
      \<and> CacheEntry.http_status e = st
      \<and> CacheEntry.dataset_git_revision e = Some rv
      \<and> CacheEntry.failed_runs e =
          (case cache (knd, ds, cfg, sp) of
             None \<Rightarrow> 0
           | Some prior \<Rightarrow>
               if CacheEntry.dataset_git_revision prior = Some rv \<and> 400 \<le> st
               then CacheEntry.failed_runs prior + 1 else 0)
      \<and> (\<not> (\<exists>prior. cache (knd, ds, cfg, sp) = Some prior
               \<and> CacheEntry.dataset_git_revision prior = Some rv
               \<and> CacheEntry.http_status prior < 400 \<and> 400 \<le> st)
           \<longrightarrow> CacheEntry.failed_runs e
                 = failed_runs_as_specified (cache (knd, ds, cfg, sp)) rv st)
      \<and> (\<forall>k. k \<noteq> (knd, ds, cfg, sp) \<longrightarrow>
             upsert now knd ds cfg sp cont st ec det pg jrv rv cache k = cache k)"
  unfolding upsert_def
  by (auto simp: upsert_with_entry upsert_with_other compute_failed_runs_def
      failed_runs_as_specified_def split: option.splits)

text \<open>The theorem at a third failure in a row (same revision: the counter goes from 1 to
  2), at a failure for a new revision (reset to 0), and at another key (untouched).\<close>

theorem upsert_failed_runs_witness:
  "map_option CacheEntry.failed_runs
     (upsert 3 STEP_DA DATASET_NAME None None CONFIG_NAMES_CONTENT 500 None None (Some 1)
        JOB_RUNNER_VERSION ''revision'' example_two_failures (STEP_DA, DATASET_NAME, None, None))
   = Some 2
   \<and> map_option CacheEntry.failed_runs
     (upsert 3 STEP_DA DATASET_NAME None None CONFIG_NAMES_CONTENT 500 None None (Some 1)
        JOB_RUNNER_VERSION ''new_revision'' example_two_failures
        (STEP_DA, DATASET_NAME, None, None))
   = Some 0
   \<and> upsert 3 STEP_DA DATASET_NAME None None CONFIG_NAMES_CONTENT 500 None None (Some 1)
        JOB_RUNNER_VERSION ''revision'' example_two_failures (''dataset-b'', DATASET_NAME, None, None)
   = None"
  using upsert_failed_runs
    [of 3 STEP_DA DATASET_NAME None None CONFIG_NAMES_CONTENT 500 None None "Some 1"
        JOB_RUNNER_VERSION "''revision''" example_two_failures]
    upsert_failed_runs
    [of 3 STEP_DA DATASET_NAME None None CONFIG_NAMES_CONTENT 500 None None "Some 1"
        JOB_RUNNER_VERSION "''new_revision''" example_two_failures]
  by (auto simp: example_two_failures_def run_job_def upsert_def upsert_with_def
      compute_failed_runs_def STEP_DA_def)

text \<open>
  Claim C1 as stated fails: after two successes at revision \<^verbatim>\<open>revision\<close>, a failure at
  the same revision stores \<^verbatim>\<open>failed_runs = 1\<close> (the third assertion of the test), where
  the claim's rule gives 0 because the prior entry is a success.
\<close>

theorem upsert_failed_runs_counterexample:
  "map_option CacheEntry.failed_runs
     (upsert 3 STEP_DA DATASET_NAME None None CONFIG_NAMES_CONTENT 500 None None (Some 1)
        JOB_RUNNER_VERSION ''revision'' example_two_successes (STEP_DA, DATASET_NAME, None, None))
   = Some 1
   \<and> failed_runs_as_specified (example_two_successes (STEP_DA, DATASET_NAME, None, None))
       ''revision'' 500 = 0"
  by (simp add: upsert_def upsert_with_def example_two_successes_def run_job_def
      compute_failed_runs_def failed_runs_as_specified_def)

text \<open>
  Claim C2. After every upsert: a success (\<^verbatim>\<open>http_status < 400\<close>) leaves
  \<^verbatim>\<open>failed_runs = 0\<close>; an upsert whose revision differs from the prior entry's leaves
  \<^verbatim>\<open>failed_runs = 0\<close>; a failure that follows a failure at the same revision leaves a
  \<^verbatim>\<open>failed_runs\<close> strictly greater (by one) than the prior entry's. The same holds along
  any list of jobs run for one key from any cache, between each job and the one before
  it. In particular the jobs (r, OK), (r, 500), (r, 500), (r2, 500), (r2, OK) run from
  the empty cache give the trajectory 0, 1, 2, 0, 0.
\<close>

theorem failed_runs_monotonicity:
  "(\<exists>e. upsert now knd ds cfg sp cont st ec det pg jrv rv cache (knd, ds, cfg, sp) = Some e
      \<and> (st < 400 \<longrightarrow> CacheEntry.failed_runs e = 0)
      \<and> (\<forall>prior. cache (knd, ds, cfg, sp) = Some prior
            \<and> CacheEntry.dataset_git_revision prior \<noteq> Some rv
          \<longrightarrow> CacheEntry.failed_runs e = 0)
      \<and> (\<forall>prior. cache (knd, ds, cfg, sp) = Some prior
            \<and> CacheEntry.dataset_git_revision prior = Some rv
            \<and> 400 \<le> CacheEntry.http_status prior \<and> 400 \<le> st
          \<longrightarrow> CacheEntry.failed_runs prior < CacheEntry.failed_runs e
              \<and> CacheEntry.failed_runs e = CacheEntry.failed_runs prior + 1))
   \<and> (\<forall>i < length jobs.
        \<exists>f. failed_runs_trajectory t jobs cache ! i = Some f
          \<and> (snd (jobs ! i) < 400 \<longrightarrow> f = 0)
          \<and> (0 < i \<and> fst (jobs ! (i - 1)) \<noteq> fst (jobs ! i) \<longrightarrow> f = 0)
          \<and> (0 < i \<and> fst (jobs ! (i - 1)) = fst (jobs ! i)
               \<and> 400 \<le> snd (jobs ! (i - 1)) \<and> 400 \<le> snd (jobs ! i)
             \<longrightarrow> (\<exists>f'. failed_runs_trajectory t jobs cache ! (i - 1) = Some f'
                    \<and> f' < f \<and> f = f' + 1)))
   \<and> failed_runs_trajectory 1
        [(''r'', 200), (''r'', 500), (''r'', 500), (''r2'', 500), (''r2'', 200)] Map.empty
      = [Some 0, Some 1, Some 2, Some 0, Some 0]"
proof -
  have one: "\<exists>e. upsert now knd ds cfg sp cont st ec det pg jrv rv cache (knd, ds, cfg, sp) = Some e
      \<and> (st < 400 \<longrightarrow> CacheEntry.failed_runs e = 0)
      \<and> (\<forall>prior. cache (knd, ds, cfg, sp) = Some prior
            \<and> CacheEntry.dataset_git_revision prior \<noteq> Some rv
          \<longrightarrow> CacheEntry.failed_runs e = 0)
      \<and> (\<forall>prior. cache (knd, ds, cfg, sp) = Some prior
            \<and> CacheEntry.dataset_git_revision prior = Some rv
            \<and> 400 \<le> CacheEntry.http_status prior \<and> 400 \<le> st
          \<longrightarrow> CacheEntry.failed_runs prior < CacheEntry.failed_runs e
              \<and> CacheEntry.failed_runs e = CacheEntry.failed_runs prior + 1)"
    unfolding upsert_def
    by (auto simp: upsert_with_entry compute_failed_runs_def split: option.splits)
  have seq: "\<exists>f. failed_runs_trajectory t jobs cache ! i = Some f
          \<and> (snd (jobs ! i) < 400 \<longrightarrow> f = 0)
          \<and> (0 < i \<and> fst (jobs ! (i - 1)) \<noteq> fst (jobs ! i) \<longrightarrow> f = 0)
          \<and> (0 < i \<and> fst (jobs ! (i - 1)) = fst (jobs ! i)
               \<and> 400 \<le> snd (jobs ! (i - 1)) \<and> 400 \<le> snd (jobs ! i)
             \<longrightarrow> (\<exists>f'. failed_runs_trajectory t jobs cache ! (i - 1) = Some f'
                    \<and> f' < f \<and> f = f' + 1))" if "i < length jobs" for i
    using failed_runs_trajectory_step[OF that, of t cache] by auto
  show ?thesis
    using one seq trajectory_example by blast
qed

text \<open>The theorem at the five jobs of the scenario: the third, fourth and fifth
  counters.\<close>

theorem failed_runs_monotonicity_witness:
  "failed_runs_trajectory 1
     [(''r'', 200), (''r'', 500), (''r'', 500), (''r2'', 500), (''r2'', 200)] Map.empty ! 2
   = Some 2
   \<and> failed_runs_trajectory 1
     [(''r'', 200), (''r'', 500), (''r'', 500), (''r2'', 500), (''r2'', 200)] Map.empty ! 3
   = Some 0
   \<and> failed_runs_trajectory 1
     [(''r'', 200), (''r'', 500), (''r'', 500), (''r2'', 500), (''r2'', 200)] Map.empty ! 4
   = Some 0"
  using failed_runs_monotonicity
    [of 1 STEP_DA DATASET_NAME None None CONFIG_NAMES_CONTENT 500 None None "Some 1"
        JOB_RUNNER_VERSION "''revision''" Map.empty
        "[(''r'', 200), (''r'', 500), (''r'', 500), (''r2'', 500), (''r2'', 200)]" 1]
  by simp

end
